theory Spec2Isabelle
  imports Complex_Main
begin

section \<open>Values and strings of the host language\<close>

text \<open>
  The engine of \<^verbatim>\<open>src/app.js\<close> works on JavaScript values. The model fixes:

  \<^item> Numbers are exact rationals (\<^typ>\<open>rat\<close>). The IEEE-754 rounding of a double and
    its overflow to an infinity are not modelled; the scores and weights of the rule
    model are small integers, which both arithmetics compute exactly.
  \<^item> Strings are byte lists in UTF-8 (\<^typ>\<open>string\<close>); a character beyond ASCII is
    written as its bytes.
  \<^item> A raw form field is a string, or is absent (\<open>undefined\<close>, \<open>null\<close>);
    \<^verbatim>\<open>gather()\<close> always supplies strings for the numeric fields and booleans for
    the check boxes.
\<close>

datatype jsval = JUndefined | JNull | JStr string

datatype jsnum = NaN | PosInf | NegInf | Fin rat

subsection \<open>\<^verbatim>\<open>String.prototype.trim\<close>\<close>

text \<open>
  The white space and line terminators that \<^verbatim>\<open>trim\<close> removes: TAB, LF, VT, FF, CR,
  SP, U+00A0, U+1680, U+2000 to U+200A, U+2028, U+2029, U+202F, U+205F, U+3000 and
  U+FEFF, each as its UTF-8 bytes.
\<close>

definition ws_seqs :: "string list" where
  "ws_seqs =
    [[CHR 0x09], [CHR 0x0A], [CHR 0x0B], [CHR 0x0C], [CHR 0x0D], [CHR 0x20],
     [CHR 0xC2, CHR 0xA0],
     [CHR 0xE1, CHR 0x9A, CHR 0x80],
     [CHR 0xE2, CHR 0x80, CHR 0x80], [CHR 0xE2, CHR 0x80, CHR 0x81],
     [CHR 0xE2, CHR 0x80, CHR 0x82], [CHR 0xE2, CHR 0x80, CHR 0x83],
     [CHR 0xE2, CHR 0x80, CHR 0x84], [CHR 0xE2, CHR 0x80, CHR 0x85],
     [CHR 0xE2, CHR 0x80, CHR 0x86], [CHR 0xE2, CHR 0x80, CHR 0x87],
     [CHR 0xE2, CHR 0x80, CHR 0x88], [CHR 0xE2, CHR 0x80, CHR 0x89],
     [CHR 0xE2, CHR 0x80, CHR 0x8A],
     [CHR 0xE2, CHR 0x80, CHR 0xA8], [CHR 0xE2, CHR 0x80, CHR 0xA9],
     [CHR 0xE2, CHR 0x80, CHR 0xAF],
     [CHR 0xE2, CHR 0x81, CHR 0x9F],
     [CHR 0xE3, CHR 0x80, CHR 0x80],
     [CHR 0xEF, CHR 0xBB, CHR 0xBF]]"

text \<open>The number of leading bytes of \<open>s\<close> that form one white-space character, or 0.\<close>

fun ws_len :: "string list \<Rightarrow> string \<Rightarrow> nat" where
  "ws_len [] s = 0"
| "ws_len (p # ps) s =
     (if p \<noteq> [] \<and> take (length p) s = p then length p else ws_len ps s)"

fun strip_ws :: "string list \<Rightarrow> nat \<Rightarrow> string \<Rightarrow> string" where
  "strip_ws ps 0 s = s"
| "strip_ws ps (Suc k) s =
     (if ws_len ps s = 0 then s else strip_ws ps k (drop (ws_len ps s) s))"

text \<open>
  \<open>strip_ws\<close> removes leading white space; every round removes at least one byte, so
  \<open>length s\<close> rounds are enough. The trailing white space is removed on the reversed
  string, against the reversed byte sequences.
\<close>

definition trimStart :: "string \<Rightarrow> string" where
  "trimStart s = strip_ws ws_seqs (length s) s"

definition trimEnd :: "string \<Rightarrow> string" where
  "trimEnd s = rev (strip_ws (map rev ws_seqs) (length s) (rev s))"

definition trim :: "string \<Rightarrow> string" where
  "trim s = trimEnd (trimStart s)"

subsection \<open>\<^verbatim>\<open>String.prototype.replace\<close> with string arguments\<close>

text \<open>Only the first occurrence is replaced; the pattern here is one character.\<close>

fun replace_first :: "char \<Rightarrow> char \<Rightarrow> string \<Rightarrow> string" where
  "replace_first a b [] = []"
| "replace_first a b (c # cs) = (if c = a then b # cs else c # replace_first a b cs)"

subsection \<open>\<^verbatim>\<open>Number(string)\<close>\<close>

text \<open>
  The grammar \<open>StringNumericLiteral\<close> of ECMAScript: surrounding white space, then
  nothing (the value 0), a signed decimal literal with optional fraction and exponent,
  \<open>Infinity\<close>, or an unsigned binary, octal or hexadecimal integer. Anything else is
  \<open>NaN\<close>. The mathematical value of the literal is kept as it is.
\<close>

definition is_digit :: "char \<Rightarrow> bool" where
  "is_digit c = (48 \<le> (of_char c :: nat) \<and> (of_char c :: nat) \<le> 57)"

definition hex_val :: "char \<Rightarrow> nat option" where
  "hex_val c =
    (let n = (of_char c :: nat) in
     if 48 \<le> n \<and> n \<le> 57 then Some (n - 48)
     else if 65 \<le> n \<and> n \<le> 70 then Some (n - 55)
     else if 97 \<le> n \<and> n \<le> 102 then Some (n - 87)
     else None)"

text \<open>The value of a non-empty digit string in a base, \<open>None\<close> if a digit is out of the base.\<close>

fun digits_val :: "nat \<Rightarrow> nat \<Rightarrow> string \<Rightarrow> nat option" where
  "digits_val base acc [] = Some acc"
| "digits_val base acc (c # cs) =
     (case hex_val c of
        None \<Rightarrow> None
      | Some v \<Rightarrow> if v < base then digits_val base (base * acc + v) cs else None)"

definition parse_digits :: "nat \<Rightarrow> string \<Rightarrow> nat option" where
  "parse_digits base s = (if s = [] then None else digits_val base 0 s)"

definition parse_exponent :: "string \<Rightarrow> int option" where
  "parse_exponent s =
    (case s of
       [] \<Rightarrow> None
     | c # cs \<Rightarrow>
         if c = CHR ''+'' then map_option int (parse_digits 10 cs)
         else if c = CHR ''-'' then map_option (\<lambda>n. - int n) (parse_digits 10 cs)
         else map_option int (parse_digits 10 s))"

definition scale10 :: "rat \<Rightarrow> int \<Rightarrow> rat" where
  "scale10 m e = (if 0 \<le> e then m * 10 ^ nat e else m / 10 ^ nat (- e))"

definition parse_unsigned_decimal :: "string \<Rightarrow> rat option" where
  "parse_unsigned_decimal s =
    (let ip = takeWhile is_digit s;
         r1 = dropWhile is_digit s;
         dot = (r1 \<noteq> [] \<and> hd r1 = CHR ''.'');
         fp = (if dot then takeWhile is_digit (tl r1) else []);
         r2 = (if dot then dropWhile is_digit (tl r1) else r1)
     in if ip = [] \<and> fp = [] then None
        else case parse_digits 10 (ip @ fp) of
          None \<Rightarrow> None
        | Some m \<Rightarrow>
            (let mant = rat_of_nat m / 10 ^ length fp in
             case r2 of
               [] \<Rightarrow> Some mant
             | c # cs \<Rightarrow>
                 if c = CHR ''e'' \<or> c = CHR ''E''
                 then map_option (scale10 mant) (parse_exponent cs)
                 else None))"

definition parse_nondecimal :: "string \<Rightarrow> rat option" where
  "parse_nondecimal s =
    (case s of
       c0 # c1 # ds \<Rightarrow>
         if c0 \<noteq> CHR ''0'' then None
         else if c1 = CHR ''x'' \<or> c1 = CHR ''X'' then map_option rat_of_nat (parse_digits 16 ds)
         else if c1 = CHR ''o'' \<or> c1 = CHR ''O'' then map_option rat_of_nat (parse_digits 8 ds)
         else if c1 = CHR ''b'' \<or> c1 = CHR ''B'' then map_option rat_of_nat (parse_digits 2 ds)
         else None
     | _ \<Rightarrow> None)"

definition Number_js :: "string \<Rightarrow> jsnum" where
  "Number_js raw =
    (let s = trim raw in
     if s = [] then Fin 0
     else if s = ''Infinity'' \<or> s = ''+Infinity'' then PosInf
     else if s = ''-Infinity'' then NegInf
     else case parse_nondecimal s of
       Some v \<Rightarrow> Fin v
     | None \<Rightarrow>
         (if hd s = CHR ''-'' then
            (case parse_unsigned_decimal (tl s) of None \<Rightarrow> NaN | Some v \<Rightarrow> Fin (- v))
          else if hd s = CHR ''+'' then
            (case parse_unsigned_decimal (tl s) of None \<Rightarrow> NaN | Some v \<Rightarrow> Fin v)
          else
            (case parse_unsigned_decimal s of None \<Rightarrow> NaN | Some v \<Rightarrow> Fin v)))"

text \<open>\<^verbatim>\<open>String(x)\<close> of a string is the string; \<^verbatim>\<open>Number.isFinite\<close> excludes \<open>NaN\<close> and the infinities.\<close>

definition Number_isFinite :: "jsnum \<Rightarrow> bool" where
  "Number_isFinite n = (case n of Fin _ \<Rightarrow> True | _ \<Rightarrow> False)"

section \<open>Normalizer\<close>

text \<open>
  \<^verbatim>\<open>
  function safeNum(x){
    if(x === null || x === undefined) return null;
    const s = String(x).trim().replace(",",".");
    if(!s) return null;
    const n = Number(s);
    return Number.isFinite(n) ? n : null;
  }
  \<close>
  The result \<open>null\<close> is \<open>None\<close>.
\<close>

definition safeNum :: "jsval \<Rightarrow> rat option" where
  "safeNum x =
    (case x of
       JNull \<Rightarrow> None
     | JUndefined \<Rightarrow> None
     | JStr str \<Rightarrow>
         (let s = replace_first CHR '','' CHR ''.'' (trim str) in
          if s = [] then None
          else (let n = Number_js s in
                if Number_isFinite n then (case n of Fin v \<Rightarrow> Some v | _ \<Rightarrow> None)
                else None)))"

text \<open>
  \<^verbatim>\<open>
  function parseFiO2(x){
    const n = safeNum(x);
    if(n === null) return null;
    if(n > 1.0 && n <= 100) return n / 100;
    return n;
  }
  \<close>
\<close>

definition parseFiO2 :: "jsval \<Rightarrow> rat option" where
  "parseFiO2 x =
    (case safeNum x of
       None \<Rightarrow> None
     | Some n \<Rightarrow> if n > 1 \<and> n \<le> 100 then Some (n / 100) else Some n)"

text \<open>\<^verbatim>\<open>function clamp(n, a, b){ return Math.max(a, Math.min(b, n)); }\<close>\<close>

definition clamp :: "rat \<Rightarrow> rat \<Rightarrow> rat \<Rightarrow> rat" where
  "clamp n a b = max a (min b n)"

text \<open>
  \<^verbatim>\<open>
  function toMonths(ageValue, unit){
    const v = safeNum(ageValue);
    if(v === null) return null;
    if(unit === "days") return v / 30.4375;
    if(unit === "years") return v * 12;
    return v;
  }
  \<close>
\<close>

definition toMonths :: "jsval \<Rightarrow> string \<Rightarrow> rat option" where
  "toMonths ageValue unit =
    (case safeNum ageValue of
       None \<Rightarrow> None
     | Some v \<Rightarrow>
         if unit = ''days'' then Some (v / (304375 / 10000))
         else if unit = ''years'' then Some (v * 12)
         else Some v)"

section \<open>Derived metrics\<close>

text \<open>
  \<^verbatim>\<open>
  function calcSF(spo2, fio2){
    const s = safeNum(spo2);
    const f = parseFiO2(fio2);
    if(s === null || f === null || f <= 0) return null;
    return s / f;
  }
  \<close>
\<close>

definition calcSF :: "jsval \<Rightarrow> jsval \<Rightarrow> rat option" where
  "calcSF spo2 fio2 =
    (case (safeNum spo2, parseFiO2 fio2) of
       (Some s, Some f) \<Rightarrow> if f \<le> 0 then None else Some (s / f)
     | _ \<Rightarrow> None)"

text \<open>
  \<^verbatim>\<open>
  function pctChange(newV, oldV){
    const a = safeNum(newV), b = safeNum(oldV);
    if(a === null || b === null || b === 0) return null;
    return (a - b) / b * 100;
  }
  \<close>
\<close>

definition pctChange :: "jsval \<Rightarrow> jsval \<Rightarrow> rat option" where
  "pctChange newV oldV =
    (case (safeNum newV, safeNum oldV) of
       (Some a, Some b) \<Rightarrow> if b = 0 then None else Some ((a - b) / b * 100)
     | _ \<Rightarrow> None)"

section \<open>Number formatting\<close>

text \<open>
  \<^verbatim>\<open>x.toFixed(0)\<close>: a minus sign if \<open>x < 0\<close>, then the integer nearest to \<open>|x|\<close>, the
  larger one on a tie, in decimal digits. (From \<open>10^21\<close> on the host prints an exponent
  form instead; the model keeps the digits.)
\<close>

fun show_nat :: "nat \<Rightarrow> string" where
  "show_nat n =
     (if n < 10 then [char_of (48 + n)]
      else show_nat (n div 10) @ [char_of (48 + n mod 10)])"

declare show_nat.simps [simp del]

definition toFixed0 :: "rat \<Rightarrow> string" where
  "toFixed0 x = (if x < 0 then ''-'' else []) @ show_nat (nat \<lfloor>\<bar>x\<bar> + 1 / 2\<rfloor>)"

text \<open>\<^verbatim>\<open>Math.round\<close>: the nearest integer, the larger one on a tie.\<close>

definition Math_round :: "rat \<Rightarrow> rat" where
  "Math_round x = of_int \<lfloor>x + 1 / 2\<rfloor>"

text \<open>\<^verbatim>\<open>Array.prototype.join\<close>.\<close>

fun join :: "string \<Rightarrow> string list \<Rightarrow> string" where
  "join sep [] = []"
| "join sep [x] = x"
| "join sep (x # y # ys) = x @ sep @ join sep (y # ys)"

section \<open>Texts of the engine\<close>

text \<open>
  The string literals of \<^verbatim>\<open>computeRisk\<close>, by their line in \<^verbatim>\<open>src/app.js\<close>, as
  UTF-8 bytes.
\<close>

subsection \<open>Labels of the factor list\<close>

text \<open>Line 129, a template around \<^verbatim>\<open>toFixed(0)\<close> (with U+2013).\<close>

definition label_sf_lt150 :: "rat \<Rightarrow> string" where
  "label_sf_lt150 x =
     ''SF 1'' @ [CHR 0xE2, CHR 0x80, CHR 0x93] @ ''2 h < 150 (SF='' @ toFixed0 x @
     '')''"

text \<open>Line 130, a template around \<^verbatim>\<open>toFixed(0)\<close> (with U+2013).\<close>

definition label_sf_lt193 :: "rat \<Rightarrow> string" where
  "label_sf_lt193 x =
     ''SF 1'' @ [CHR 0xE2, CHR 0x80, CHR 0x93] @ ''2 h < 193 (SF='' @ toFixed0 x @
     '')''"

text \<open>Line 131, a template around \<^verbatim>\<open>toFixed(0)\<close> (with U+2013).\<close>

definition label_sf_193_219 :: "rat \<Rightarrow> string" where
  "label_sf_193_219 x =
     ''SF 1'' @ [CHR 0xE2, CHR 0x80, CHR 0x93] @ ''2 h 193'' @
     [CHR 0xE2, CHR 0x80, CHR 0x93] @ ''219 (SF='' @ toFixed0 x @
     '')''"

text \<open>Line 132, a template around \<^verbatim>\<open>toFixed(0)\<close> (with U+2013).\<close>

definition label_sf_220_259 :: "rat \<Rightarrow> string" where
  "label_sf_220_259 x =
     ''SF 1'' @ [CHR 0xE2, CHR 0x80, CHR 0x93] @ ''2 h 220'' @
     [CHR 0xE2, CHR 0x80, CHR 0x93] @ ''259 (SF='' @ toFixed0 x @
     '')''"

text \<open>Line 141 (with U+00E3).\<close>

definition label_rr_no_improvement :: string where
  "label_rr_no_improvement =
     ''FR n'' @ [CHR 0xC3, CHR 0xA3] @ ''o melhorou / piorou''"

text \<open>Line 142.\<close>

definition label_rr_drop_lt10 :: string where
  "label_rr_drop_lt10 =
     ''Queda de FR < 10%''"

text \<open>Line 161.\<close>

definition label_age_lt6 :: string where
  "label_age_lt6 =
     ''Idade < 6 meses''"

text \<open>Line 169 (with U+00E9).\<close>

definition label_type1 :: string where
  "label_type1 =
     ''IRA hipox'' @ [CHR 0xC3, CHR 0xA9] @ ''mica (tipo 1)''"

text \<open>Line 170.\<close>

definition label_ards :: string where
  "label_ards =
     ''ARDS''"

text \<open>Line 171.\<close>

definition label_pneumonia :: string where
  "label_pneumonia =
     ''Pneumonia''"

text \<open>Line 228 (with U+00ED).\<close>

definition label_red_flags :: string where
  "label_red_flags =
     ''Red flags cl'' @ [CHR 0xC3, CHR 0xAD] @ ''nicas''"

subsection \<open>Oxygenation context\<close>

text \<open>Line 216.\<close>

definition oxy_sf_very_low :: string where
  "oxy_sf_very_low =
     ''SF muito baixo''"

text \<open>Line 217.\<close>

definition oxy_sf_low :: string where
  "oxy_sf_low =
     ''SF baixo (<193)''"

text \<open>Line 218 (with U+00E1).\<close>

definition oxy_sf_acceptable :: string where
  "oxy_sf_acceptable =
     ''SF aceit'' @ [CHR 0xC3, CHR 0xA1] @ ''vel''"

text \<open>Line 221 (with U+2082, U+2265).\<close>

definition oxy_fio2_high :: string where
  "oxy_fio2_high =
     ''FiO'' @ [CHR 0xE2, CHR 0x82, CHR 0x82] @ '' alta ('' @
     [CHR 0xE2, CHR 0x89, CHR 0xA5] @ ''0.70)''"

text \<open>Line 222 (with U+2013, U+2082).\<close>

definition oxy_fio2_moderate :: string where
  "oxy_fio2_moderate =
     ''FiO'' @ [CHR 0xE2, CHR 0x82, CHR 0x82] @ '' moderada (0.50'' @
     [CHR 0xE2, CHR 0x80, CHR 0x93] @ ''0.69)''"

text \<open>Line 223 (with U+2082).\<close>

definition oxy_fio2_low :: string where
  "oxy_fio2_low =
     ''FiO'' @ [CHR 0xE2, CHR 0x82, CHR 0x82] @ '' baixa/moderada (<0.50)''"

text \<open>Line 225 (with U+2022).\<close>

definition oxy_sep :: string where
  "oxy_sep =
     '' '' @ [CHR 0xE2, CHR 0x80, CHR 0xA2] @ '' ''"

subsection \<open>Tiers and badges\<close>

text \<open>Line 89 (with U+2014).\<close>

definition dash :: string where
  "dash =
     [CHR 0xE2, CHR 0x80, CHR 0x94]"

text \<open>Line 234.\<close>

definition tier_very_high :: string where
  "tier_very_high =
     ''Muito alto''"

text \<open>Line 235.\<close>

definition badge_very_high :: string where
  "badge_very_high =
     ''ALTO RISCO''"

text \<open>Line 237.\<close>

definition tier_high :: string where
  "tier_high =
     ''Alto''"

text \<open>Line 238 (with U+2191).\<close>

definition badge_high :: string where
  "badge_high =
     ''RISCO '' @ [CHR 0xE2, CHR 0x86, CHR 0x91]"

text \<open>Line 240 (with U+00E9).\<close>

definition tier_intermediate :: string where
  "tier_intermediate =
     ''Interm'' @ [CHR 0xC3, CHR 0xA9] @ ''dio''"

text \<open>Line 241 (with U+2194).\<close>

definition badge_intermediate :: string where
  "badge_intermediate =
     ''RISCO '' @ [CHR 0xE2, CHR 0x86, CHR 0x94]"

text \<open>Line 243.\<close>

definition tier_low :: string where
  "tier_low =
     ''Baixo''"

text \<open>Line 244 (with U+2193).\<close>

definition badge_low :: string where
  "badge_low =
     ''RISCO '' @ [CHR 0xE2, CHR 0x86, CHR 0x93]"

subsection \<open>Explanation notes\<close>

text \<open>Line 249 (with U+00E1, U+00ED).\<close>

definition note_red_flags :: string where
  "note_red_flags =
     ''H'' @ [CHR 0xC3, CHR 0xA1] @ '' red flags cl'' @ [CHR 0xC3, CHR 0xAD] @
     ''nicas assinaladas (isto pesa mais do que qualquer score).''"

text \<open>Line 250 (with U+00E9, U+00EA).\<close>

definition note_operational :: string where
  "note_operational =
     ''Crit'' @ [CHR 0xC3, CHR 0xA9] @ ''rios operacionais de fal'' @
     [CHR 0xC3, CHR 0xAA] @ ''ncia assinalados (gatilhos de escalada).''"

text \<open>Line 253, a template around \<^verbatim>\<open>toFixed(0)\<close> (with U+00E1, U+00EA, U+2013).\<close>

definition note_sf :: "rat \<Rightarrow> string" where
  "note_sf x =
     ''SF a 1'' @ [CHR 0xE2, CHR 0x80, CHR 0x93] @ ''2 h < 193 (SF='' @ toFixed0 x @
     ''): marcador de alto risco de fal'' @ [CHR 0xC3, CHR 0xAA] @
     ''ncia precoce em coorte pedi'' @ [CHR 0xC3, CHR 0xA1] @ ''trica.''"

text \<open>Line 256 (with U+00E1, U+00E3, U+00E7, U+00EA).\<close>

definition note_rr :: string where
  "note_rr =
     ''Redu'' @ [CHR 0xC3, CHR 0xA7] @ [CHR 0xC3, CHR 0xA3] @
     ''o de FR < 10% (ou pior): resposta precoce fraca est'' @
     [CHR 0xC3, CHR 0xA1] @ '' associada a fal'' @ [CHR 0xC3, CHR 0xAA] @
     ''ncia em estudos prospetivos.''"

text \<open>Line 259 (with U+00EA).\<close>

definition note_age :: string where
  "note_age =
     ''Idade < 6 meses: maior risco de fal'' @ [CHR 0xC3, CHR 0xAA] @
     ''ncia (sincronia/leaks, gravidade).''"

text \<open>Line 261 (with U+00E1, U+00E9, U+00EA).\<close>

definition note_type1 :: string where
  "note_type1 =
     ''IRA hipox'' @ [CHR 0xC3, CHR 0xA9] @
     ''mica (tipo 1): maior risco de fal'' @ [CHR 0xC3, CHR 0xAA] @
     ''ncia vs. tipo 2 em coorte pedi'' @ [CHR 0xC3, CHR 0xA1] @ ''trica.''"

text \<open>Line 262 (with U+00EA).\<close>

definition note_ards :: string where
  "note_ards =
     ''ARDS: associada a maiores taxas de fal'' @ [CHR 0xC3, CHR 0xAA] @
     ''ncia.''"

text \<open>Line 263 (with U+00E1, U+00EA).\<close>

definition note_prism :: string where
  "note_prism =
     ''PRISM elevado associa-se a fal'' @ [CHR 0xC3, CHR 0xAA] @
     ''ncia em v'' @ [CHR 0xC3, CHR 0xA1] @ ''rias coortes.''"

text \<open>Line 265.\<close>

definition note_none :: string where
  "note_none =
     ''Sem sinais fortes de alto risco com os dados fornecidos.''"

subsection \<open>Action suggestions\<close>

text \<open>Line 269 (with U+00E1, U+00E3, U+00E7).\<close>

definition action_triggers :: string where
  "action_triggers =
     ''H'' @ [CHR 0xC3, CHR 0xA1] @
     '' gatilhos assinalados: definir janela curta de reavalia'' @
     [CHR 0xC3, CHR 0xA7] @ [CHR 0xC3, CHR 0xA3] @
     ''o e plano de escalada (ex: intuba'' @ [CHR 0xC3, CHR 0xA7] @
     [CHR 0xC3, CHR 0xA3] @ ''o/VM se deteriora'' @ [CHR 0xC3, CHR 0xA7] @
     [CHR 0xC3, CHR 0xA3] @ ''o).''"

text \<open>Line 271 (with U+00E3, U+00E7, U+00ED, U+2013).\<close>

definition action_high_1 :: string where
  "action_high_1 =
     ''Monitoriza'' @ [CHR 0xC3, CHR 0xA7] @ [CHR 0xC3, CHR 0xA3] @
     ''o cont'' @ [CHR 0xC3, CHR 0xAD] @ ''nua e reavalia'' @
     [CHR 0xC3, CHR 0xA7] @ [CHR 0xC3, CHR 0xA3] @ ''o frequente (ex: 15'' @
     [CHR 0xE2, CHR 0x80, CHR 0x93] @ ''30 min), com plano expl'' @
     [CHR 0xC3, CHR 0xAD] @ ''cito de escalada.''"

text \<open>Line 272 (with U+00E2, U+00E3, U+00E7).\<close>

definition action_high_2 :: string where
  "action_high_2 =
     ''Verificar interface/leaks, sincroniza'' @ [CHR 0xC3, CHR 0xA7] @
     [CHR 0xC3, CHR 0xA3] @
     ''o, conforto; optimizar IPAP/EPAP conforme objetivo (oxigena'' @
     [CHR 0xC3, CHR 0xA7] @ [CHR 0xC3, CHR 0xA3] @ ''o vs ventila'' @
     [CHR 0xC3, CHR 0xA7] @ [CHR 0xC3, CHR 0xA3] @ ''o) e toler'' @
     [CHR 0xC3, CHR 0xA2] @ ''ncia.''"

text \<open>Line 273 (with U+00E7, U+00EA, U+00ED, U+00F3, U+00F5).\<close>

definition action_high_3 :: string where
  "action_high_3 =
     ''Reavaliar causa revers'' @ [CHR 0xC3, CHR 0xAD] @ ''vel e terap'' @
     [CHR 0xC3, CHR 0xAA] @ ''utica espec'' @ [CHR 0xC3, CHR 0xAD] @
     ''fica (broncoespasmo, secre'' @ [CHR 0xC3, CHR 0xA7] @
     [CHR 0xC3, CHR 0xB5] @ ''es, fluidos, antibi'' @ [CHR 0xC3, CHR 0xB3] @
     ''tico, etc.).''"

text \<open>Line 274 (with U+00E3, U+00E7, U+00ED, U+2013).\<close>

definition action_high_4 :: string where
  "action_high_4 =
     ''Considerar precocemente equipa e log'' @ [CHR 0xC3, CHR 0xAD] @
     ''stica de intuba'' @ [CHR 0xC3, CHR 0xA7] @ [CHR 0xC3, CHR 0xA3] @
     ''o, sobretudo se SF < 193 a 1'' @ [CHR 0xE2, CHR 0x80, CHR 0x93] @
     ''2 h ou deteriora'' @ [CHR 0xC3, CHR 0xA7] @ [CHR 0xC3, CHR 0xA3] @
     ''o cl'' @ [CHR 0xC3, CHR 0xAD] @ ''nica.''"

text \<open>Line 276 (with U+00EA, U+00F3, U+2013).\<close>

definition action_mid_1 :: string where
  "action_mid_1 =
     ''Reavaliar resposta nas pr'' @ [CHR 0xC3, CHR 0xB3] @ ''ximas 30'' @
     [CHR 0xE2, CHR 0x80, CHR 0x93] @ ''60 min; confirmar tend'' @
     [CHR 0xC3, CHR 0xAA] @ ''ncia de FR/FC e SF.''"

text \<open>Line 277 (with U+00E2, U+00E9, U+00EA).\<close>

definition action_mid_2 :: string where
  "action_mid_2 =
     ''Optimizar interface e par'' @ [CHR 0xC3, CHR 0xA2] @
     ''metros; documentar crit'' @ [CHR 0xC3, CHR 0xA9] @ ''rios de fal'' @
     [CHR 0xC3, CHR 0xAA] @ ''ncia e gatilhos de escalada.''"

text \<open>Line 279 (with U+00E2, U+00E3, U+00E7).\<close>

definition action_low :: string where
  "action_low =
     ''Manter VNI com vigil'' @ [CHR 0xC3, CHR 0xA2] @ ''ncia e reavalia'' @
     [CHR 0xC3, CHR 0xA7] @ [CHR 0xC3, CHR 0xA3] @
     ''o seriada; confirmar melhoria sustentada de FR/FC e SF.''"

text \<open>Line 284 (with U+00E3, U+00E7, U+00ED, U+00F3).\<close>

definition action_sf :: string where
  "action_sf =
     ''Se n'' @ [CHR 0xC3, CHR 0xA3] @ ''o atingir SF ~190 ap'' @
     [CHR 0xC3, CHR 0xB3] @ ''s 1 h de VNI, a necessidade de intuba'' @
     [CHR 0xC3, CHR 0xA7] @ [CHR 0xC3, CHR 0xA3] @
     ''o deve ser ponderada no contexto cl'' @ [CHR 0xC3, CHR 0xAD] @
     ''nico global.''"

subsection \<open>Brief\<close>

text \<open>Line 304, a template around \<^verbatim>\<open>toFixed(0)\<close>.\<close>

definition brief_sf :: "rat \<Rightarrow> string" where
  "brief_sf x =
     ''SF1-2h='' @ toFixed0 x @
     []"

text \<open>Line 305, a template around \<^verbatim>\<open>toFixed(0)\<close> (with U+0394).\<close>

definition brief_rr :: "rat \<Rightarrow> string" where
  "brief_rr x =
     [CHR 0xCE, CHR 0x94] @ ''FR='' @ toFixed0 x @
     ''%''"

text \<open>Line 306, a template around \<^verbatim>\<open>toFixed(0)\<close> (with U+0394).\<close>

definition brief_hr :: "rat \<Rightarrow> string" where
  "brief_hr x =
     [CHR 0xCE, CHR 0x94] @ ''FC='' @ toFixed0 x @
     ''%''"

text \<open>Line 307.\<close>

definition brief_sep :: string where
  "brief_sep =
     '' | ''"

section \<open>Data model\<close>

text \<open>The snapshot that \<^verbatim>\<open>gather()\<close> builds from the form.\<close>

record snapshot =
  ageValue :: jsval
  ageUnit :: string
  arfType :: string
  diag :: string
  prism :: jsval
  rfHemodyn :: bool
  rfGcs :: bool
  rfSecretions :: bool
  rfApnea :: bool
  rfPtx :: bool
  cfHypox :: bool
  cfWork :: bool
  cfHypercap :: bool
  cfIntol :: bool
  spo2_0 :: jsval
  fio2_0 :: jsval
  epap_0 :: jsval
  rr_0 :: jsval
  hr_0 :: jsval
  ph_0 :: jsval
  pco2_0 :: jsval
  spo2_1 :: jsval
  fio2_1 :: jsval
  rr_1 :: jsval
  hr_1 :: jsval
  ipap_1 :: jsval
  epap_1 :: jsval
  ph_1 :: jsval
  pco2_1 :: jsval

text \<open>An entry \<^verbatim>\<open>{w, label}\<close> of the factor list.\<close>

record factor =
  w :: rat
  label :: string

text \<open>
  The assessment \<^verbatim>\<open>out\<close>. Its \<^verbatim>\<open>summary\<close> text (lines 289 to 298) is left out:
  it prints a parsed number with the host's shortest-digits printer for doubles. It is
  built from the age, the failure type, the diagnosis, the severity score, the derived
  metrics, the score, the tier and the red flags.
\<close>

record out =
  sf0 :: "rat option"
  sf1 :: "rat option"
  drrPct :: "rat option"
  dhrPct :: "rat option"
  dpco2 :: "rat option"
  oxyCtx :: "string option"
  score :: rat
  tier :: string
  badge :: string
  explain :: string
  actions :: "string list"
  topFactors :: "string list"
  brief :: string

text \<open>The local variables \<^verbatim>\<open>score\<close> and \<^verbatim>\<open>factors\<close> of \<^verbatim>\<open>computeRisk\<close>.\<close>

record vars =
  score_var :: rat
  factors :: "factor list"

section \<open>Rule scorer\<close>

text \<open>\<^verbatim>\<open>const addFactor = (w, label) => { factors.push({w, label}); };\<close> and \<^verbatim>\<open>score += n\<close>.\<close>

definition addFactor :: "rat \<Rightarrow> string \<Rightarrow> vars \<Rightarrow> vars" where
  "addFactor wt lbl v = v\<lparr>factors := factors v @ [\<lparr>w = wt, label = lbl\<rparr>]\<rparr>"

definition addScore :: "rat \<Rightarrow> vars \<Rightarrow> vars" where
  "addScore n v = v\<lparr>score_var := score_var v + n\<rparr>"

text \<open>Lines 99 to 105: \<^verbatim>\<open>[...].some(Boolean)\<close> over the check boxes.\<close>

definition operationalCriteria :: "snapshot \<Rightarrow> bool" where
  "operationalCriteria d = list_ex (\<lambda>b. b) [cfHypox d, cfWork d, cfHypercap d, cfIntol d]"

definition redFlags :: "snapshot \<Rightarrow> bool" where
  "redFlags d =
     list_ex (\<lambda>b. b) [rfHemodyn d, rfGcs d, rfSecretions d, rfApnea d, rfPtx d]"

text \<open>
  Lines 84 to 120: \<^verbatim>\<open>out\<close> with its defaults, then the derived metrics.
  \<^verbatim>\<open>
  out.sf0 = calcSF(d.spo2_0, d.fio2_0);
  out.sf1 = calcSF(d.spo2_1, d.fio2_1);
  out.drrPct = (safeNum(d.rr_1) !== null && safeNum(d.rr_0) !== null) ? pctChange(d.rr_1, d.rr_0) : null;
  out.dhrPct = (safeNum(d.hr_1) !== null && safeNum(d.hr_0) !== null) ? pctChange(d.hr_1, d.hr_0) : null;
  const pco2_0 = safeNum(d.pco2_0), pco2_1 = safeNum(d.pco2_1);
  if(pco2_0 !== null && pco2_1 !== null){ out.dpco2 = pco2_1 - pco2_0; }
  \<close>
\<close>

definition derive :: "snapshot \<Rightarrow> out" where
  "derive d =
    \<lparr> sf0 = calcSF (spo2_0 d) (fio2_0 d),
      sf1 = calcSF (spo2_1 d) (fio2_1 d),
      drrPct = (if safeNum (rr_1 d) \<noteq> None \<and> safeNum (rr_0 d) \<noteq> None
                then pctChange (rr_1 d) (rr_0 d) else None),
      dhrPct = (if safeNum (hr_1 d) \<noteq> None \<and> safeNum (hr_0 d) \<noteq> None
                then pctChange (hr_1 d) (hr_0 d) else None),
      dpco2 = (case (safeNum (pco2_0 d), safeNum (pco2_1 d)) of
                 (Some p0, Some p1) \<Rightarrow> Some (p1 - p0)
               | _ \<Rightarrow> None),
      oxyCtx = None,
      score = 0,
      tier = dash,
      badge = dash,
      explain = [],
      actions = [],
      topFactors = [],
      brief = [] \<rparr>"

text \<open>Line 122: \<^verbatim>\<open>const ageM = toMonths(d.ageValue, d.ageUnit);\<close>\<close>

definition ageM :: "snapshot \<Rightarrow> rat option" where
  "ageM d = toMonths (ageValue d) (ageUnit d)"

text \<open>
  Lines 128 to 136, the oxygenation ratio at 1 to 2 h:
  \<^verbatim>\<open>
  if(out.sf1 !== null){
    if(out.sf1 < 150) { score += 40; addFactor(40, ...); }
    else if(out.sf1 < 193) { score += 30; addFactor(30, ...); }
    else if(out.sf1 < 220) { score += 18; addFactor(18, ...); }
    else if(out.sf1 < 260) { score += 10; addFactor(10, ...); }
    else score += 3;
  } else {
    score += 10;
  }
  \<close>
\<close>

definition score_sf1 :: "rat option \<Rightarrow> vars \<Rightarrow> vars" where
  "score_sf1 sf v =
    (case sf of
       Some x \<Rightarrow>
         if x < 150 then addFactor 40 (label_sf_lt150 x) (addScore 40 v)
         else if x < 193 then addFactor 30 (label_sf_lt193 x) (addScore 30 v)
         else if x < 220 then addFactor 18 (label_sf_193_219 x) (addScore 18 v)
         else if x < 260 then addFactor 10 (label_sf_220_259 x) (addScore 10 v)
         else addScore 3 v
     | None \<Rightarrow> addScore 10 v)"

text \<open>
  Lines 140 to 147, the change of the respiratory rate:
  \<^verbatim>\<open>
  if(out.drrPct !== null){
    if(out.drrPct >= 0) { score += 18; addFactor(18, ...); }
    else if(out.drrPct > -10) { score += 12; addFactor(12, ...); }
    else if(out.drrPct > -20) score += 7;
    else score += 2;
  } else {
    score += 6;
  }
  \<close>
\<close>

definition score_rr :: "rat option \<Rightarrow> vars \<Rightarrow> vars" where
  "score_rr drr v =
    (case drr of
       Some x \<Rightarrow>
         if x \<ge> 0 then addFactor 18 label_rr_no_improvement (addScore 18 v)
         else if x > - 10 then addFactor 12 label_rr_drop_lt10 (addScore 12 v)
         else if x > - 20 then addScore 7 v
         else addScore 2 v
     | None \<Rightarrow> addScore 6 v)"

text \<open>
  Lines 150 to 157, the change of the heart rate:
  \<^verbatim>\<open>
  if(out.dhrPct !== null){
    if(out.dhrPct >= 0) score += 10;
    else if(out.dhrPct > -5) score += 7;
    else if(out.dhrPct > -10) score += 4;
    else score += 1;
  } else {
    score += 3;
  }
  \<close>
\<close>

definition score_hr :: "rat option \<Rightarrow> vars \<Rightarrow> vars" where
  "score_hr dhr v =
    (case dhr of
       Some x \<Rightarrow>
         if x \<ge> 0 then addScore 10 v
         else if x > - 5 then addScore 7 v
         else if x > - 10 then addScore 4 v
         else addScore 1 v
     | None \<Rightarrow> addScore 3 v)"

text \<open>
  Lines 160 to 166, the age:
  \<^verbatim>\<open>
  if(ageM !== null){
    if(ageM < 6) { score += 10; addFactor(10, "Idade < 6 meses"); }
    else if(ageM < 12) score += 6;
    else score += 2;
  } else {
    score += 4;
  }
  \<close>
\<close>

definition score_age :: "rat option \<Rightarrow> vars \<Rightarrow> vars" where
  "score_age age v =
    (case age of
       Some x \<Rightarrow>
         if x < 6 then addFactor 10 label_age_lt6 (addScore 10 v)
         else if x < 12 then addScore 6 v
         else addScore 2 v
     | None \<Rightarrow> addScore 4 v)"

text \<open>
  Lines 169 to 171, failure type and diagnosis:
  \<^verbatim>\<open>
  if(d.arfType === "type1") { score += 10; addFactor(10, ...); }
  if(d.diag === "ards") { score += 12; addFactor(12, "ARDS" ); }
  else if(d.diag === "pneumonia") { score += 8; addFactor(8, "Pneumonia" ); }
  \<close>
\<close>

definition score_arfType :: "string \<Rightarrow> vars \<Rightarrow> vars" where
  "score_arfType t v =
    (if t = ''type1'' then addFactor 10 label_type1 (addScore 10 v) else v)"

definition score_diag :: "string \<Rightarrow> vars \<Rightarrow> vars" where
  "score_diag dg v =
    (if dg = ''ards'' then addFactor 12 label_ards (addScore 12 v)
     else if dg = ''pneumonia'' then addFactor 8 label_pneumonia (addScore 8 v)
     else v)"

text \<open>
  Lines 174 to 181, the oxygen fraction at initiation, read with \<^verbatim>\<open>safeNum\<close>:
  \<^verbatim>\<open>
  const fio2_0 = safeNum(d.fio2_0);
  if(fio2_0 !== null){
    if(fio2_0 >= 0.8) score += 8;
    else if(fio2_0 >= 0.6) score += 5;
    else if(fio2_0 >= 0.4) score += 3;
    else score += 1;
  }
  \<close>
\<close>

definition score_fio2_0 :: "rat option \<Rightarrow> vars \<Rightarrow> vars" where
  "score_fio2_0 f v =
    (case f of
       Some x \<Rightarrow>
         if x \<ge> 8 / 10 then addScore 8 v
         else if x \<ge> 6 / 10 then addScore 5 v
         else if x \<ge> 4 / 10 then addScore 3 v
         else addScore 1 v
     | None \<Rightarrow> v)"

text \<open>
  Lines 184 to 189, the severity score:
  \<^verbatim>\<open>
  if(prism !== null){
    if(prism >= 10) score += 10;
    else if(prism >= 5) score += 6;
    else if(prism >= 1) score += 3;
  }
  \<close>
\<close>

definition score_prism :: "rat option \<Rightarrow> vars \<Rightarrow> vars" where
  "score_prism p v =
    (case p of
       Some x \<Rightarrow>
         if x \<ge> 10 then addScore 10 v
         else if x \<ge> 5 then addScore 6 v
         else if x \<ge> 1 then addScore 3 v
         else v
     | None \<Rightarrow> v)"

text \<open>
  Lines 192 to 197, the inspiratory pressure at 1 to 2 h:
  \<^verbatim>\<open>
  if(ipap !== null){
    if(ipap >= 18) score += 6;
    else if(ipap >= 14) score += 3;
  }
  \<close>
\<close>

definition score_ipap :: "rat option \<Rightarrow> vars \<Rightarrow> vars" where
  "score_ipap p v =
    (case p of
       Some x \<Rightarrow>
         if x \<ge> 18 then addScore 6 v
         else if x \<ge> 14 then addScore 3 v
         else v
     | None \<Rightarrow> v)"

text \<open>
  Lines 200 to 209, the trends of carbon dioxide and pH:
  \<^verbatim>\<open>
  if(out.dpco2 !== null){
    if(out.dpco2 >= 5) score += 6;
    else if(out.dpco2 >= 0) score += 3;
    else score += 1;
  }
  if(ph0 !== null && ph1 !== null){
    if(ph1 < ph0 - 0.02) score += 4;
    else if(ph1 < ph0 + 0.01) score += 2;
  }
  \<close>
\<close>

definition score_dpco2 :: "rat option \<Rightarrow> vars \<Rightarrow> vars" where
  "score_dpco2 dp v =
    (case dp of
       Some x \<Rightarrow>
         if x \<ge> 5 then addScore 6 v
         else if x \<ge> 0 then addScore 3 v
         else addScore 1 v
     | None \<Rightarrow> v)"

definition score_ph :: "rat option \<Rightarrow> rat option \<Rightarrow> vars \<Rightarrow> vars" where
  "score_ph ph0 ph1 v =
    (case (ph0, ph1) of
       (Some p0, Some p1) \<Rightarrow>
         if p1 < p0 - 2 / 100 then addScore 4 v
         else if p1 < p0 + 1 / 100 then addScore 2 v
         else v
     | _ \<Rightarrow> v)"

text \<open>
  Line 228, the override:
  \<^verbatim>\<open>if(redFlags){ score = Math.max(score, 85); addFactor(50, ...); }\<close>
\<close>

definition override :: "bool \<Rightarrow> vars \<Rightarrow> vars" where
  "override rf v =
    (if rf then addFactor 50 label_red_flags (v\<lparr>score_var := max (score_var v) 85\<rparr>)
     else v)"

text \<open>
  Lines 125 to 209: from \<^verbatim>\<open>let score = 0\<close> and \<^verbatim>\<open>const factors = []\<close>, the nine
  blocks in the order of the source.
\<close>

definition scoring :: "snapshot \<Rightarrow> out \<Rightarrow> vars" where
  "scoring d o1 =
    score_ph (safeNum (ph_0 d)) (safeNum (ph_1 d))
     (score_dpco2 (dpco2 o1)
      (score_ipap (safeNum (ipap_1 d))
       (score_prism (safeNum (prism d))
        (score_fio2_0 (safeNum (fio2_0 d))
         (score_diag (diag d)
          (score_arfType (arfType d)
           (score_age (ageM d)
            (score_hr (dhrPct o1)
             (score_rr (drrPct o1)
              (score_sf1 (sf1 o1) \<lparr>score_var = 0, factors = []\<rparr>))))))))))"

text \<open>The values of \<^verbatim>\<open>score\<close> and \<^verbatim>\<open>factors\<close> when line 228 has run.\<close>

definition accumulate :: "snapshot \<Rightarrow> out \<Rightarrow> vars" where
  "accumulate d o1 = override (redFlags d) (scoring d o1)"

section \<open>Classifier\<close>

text \<open>
  Lines 233 to 245, on the final score:
  \<^verbatim>\<open>
  if(out.score >= 85){ out.tier = ...; out.badge = ...; }
  else if(out.score >= 65){ ... }
  else if(out.score >= 45){ ... }
  else { ... }
  \<close>
  with the tier and badge texts of the lines 234 to 244.
\<close>

definition tiering :: "rat \<Rightarrow> string \<times> string" where
  "tiering sc =
    (if sc \<ge> 85 then (tier_very_high, badge_very_high)
     else if sc \<ge> 65 then (tier_high, badge_high)
     else if sc \<ge> 45 then (tier_intermediate, badge_intermediate)
     else (tier_low, badge_low))"

section \<open>Narrator\<close>

text \<open>Lines 213 to 225, the oxygenation context (it adds nothing to the score).\<close>

definition oxy_context :: "rat option \<Rightarrow> rat option \<Rightarrow> string option" where
  "oxy_context sf f =
    (let oxy =
       (case sf of
          Some x \<Rightarrow>
            if x < 150 then [oxy_sf_very_low]
            else if x < 193 then [oxy_sf_low]
            else [oxy_sf_acceptable]
        | None \<Rightarrow> []) @
       (case f of
          Some y \<Rightarrow>
            if y \<ge> 7 / 10 then [oxy_fio2_high]
            else if y \<ge> 5 / 10 then [oxy_fio2_moderate]
            else [oxy_fio2_low]
        | None \<Rightarrow> [])
     in if oxy \<noteq> [] then Some (join oxy_sep oxy) else None)"

text \<open>Lines 248 to 265, the explanation.\<close>

definition explanation :: "snapshot \<Rightarrow> out \<Rightarrow> string" where
  "explanation d o1 =
    (let notes =
       (if redFlags d then [note_red_flags] else []) @
       (if operationalCriteria d then [note_operational] else []) @
       (case sf1 o1 of Some x \<Rightarrow> if x < 193 then [note_sf x] else [] | None \<Rightarrow> []) @
       (case drrPct o1 of Some x \<Rightarrow> if x > - 10 then [note_rr] else [] | None \<Rightarrow> []) @
       (case ageM d of Some x \<Rightarrow> if x < 6 then [note_age] else [] | None \<Rightarrow> []) @
       (if arfType d = ''type1'' then [note_type1] else []) @
       (if diag d = ''ards'' then [note_ards] else []) @
       (case safeNum (prism d) of
          Some x \<Rightarrow> if x \<ge> 5 then [note_prism] else [] | None \<Rightarrow> [])
     in if notes \<noteq> [] then join '' '' notes else note_none)"

text \<open>Lines 268 to 287, the actions; \<open>sc\<close> is the final score.\<close>

definition action_list :: "snapshot \<Rightarrow> out \<Rightarrow> rat \<Rightarrow> string list" where
  "action_list d o1 sc =
    (if operationalCriteria d then [action_triggers] else []) @
    (if sc \<ge> 65 \<or> redFlags d
       then [action_high_1, action_high_2, action_high_3, action_high_4]
     else if sc \<ge> 45 then [action_mid_1, action_mid_2]
     else [action_low]) @
    (case sf1 o1 of Some x \<Rightarrow> if x < 193 then [action_sf] else [] | None \<Rightarrow> [])"

text \<open>
  Lines 300 and 301:
  \<^verbatim>\<open>
  factors.sort((a,b)=>b.w-a.w);
  out.topFactors = factors.slice(0,3).map(x=>x.label);
  \<close>
  The sort of the host is stable, and so is \<^const>\<open>sort_key\<close>; the comparator orders
  by falling weight.
\<close>

definition sort_factors :: "factor list \<Rightarrow> factor list" where
  "sort_factors fs = sort_key (\<lambda>f. - w f) fs"

definition top_factors :: "factor list \<Rightarrow> string list" where
  "top_factors fs = map label (take 3 (sort_factors fs))"

text \<open>Lines 303 to 307, the brief.\<close>

definition brief_text :: "out \<Rightarrow> string" where
  "brief_text o1 =
    join brief_sep
     ((case sf1 o1 of Some x \<Rightarrow> [brief_sf x] | None \<Rightarrow> []) @
      (case drrPct o1 of Some x \<Rightarrow> [brief_rr x] | None \<Rightarrow> []) @
      (case dhrPct o1 of Some x \<Rightarrow> [brief_hr x] | None \<Rightarrow> []))"

section \<open>The engine\<close>

text \<open>
  \<^verbatim>\<open>computeRisk(d)\<close>: the derived metrics, the accumulated score and factor list,
  line 230 \<^verbatim>\<open>out.score = clamp(Math.round(score), 0, 100);\<close>, the tier and the texts.
\<close>

definition computeRisk :: "snapshot \<Rightarrow> out" where
  "computeRisk d =
    (let o1 = derive d;
         v = accumulate d o1;
         sc = clamp (Math_round (score_var v)) 0 100
     in o1\<lparr> oxyCtx := oxy_context (sf1 o1) (parseFiO2 (fio2_1 d)),
            score := sc,
            tier := fst (tiering sc),
            badge := snd (tiering sc),
            explain := explanation d o1,
            actions := action_list d o1 sc,
            topFactors := top_factors (factors v),
            brief := brief_text o1 \<rparr>)"

section \<open>Snapshots used below\<close>

text \<open>
  The form with nothing entered (the defaults of \<^verbatim>\<open>fill\<close> for the three selectors),
  and snapshots built from it.
\<close>

definition blank_form :: snapshot where
  "blank_form =
    \<lparr> ageValue = JStr [], ageUnit = ''months'', arfType = ''type2'', diag = ''bronchiolitis'',
      prism = JStr [],
      rfHemodyn = False, rfGcs = False, rfSecretions = False, rfApnea = False, rfPtx = False,
      cfHypox = False, cfWork = False, cfHypercap = False, cfIntol = False,
      spo2_0 = JStr [], fio2_0 = JStr [], epap_0 = JStr [], rr_0 = JStr [], hr_0 = JStr [],
      ph_0 = JStr [], pco2_0 = JStr [],
      spo2_1 = JStr [], fio2_1 = JStr [], rr_1 = JStr [], hr_1 = JStr [], ipap_1 = JStr [],
      epap_1 = JStr [], ph_1 = JStr [], pco2_1 = JStr [] \<rparr>"

definition scenario_A :: snapshot where
  "scenario_A = blank_form\<lparr>spo2_1 := JStr ''90'', fio2_1 := JStr ''60'', ageValue := JStr ''3''\<rparr>"

definition scenario_B :: snapshot where
  "scenario_B =
    blank_form\<lparr>rfHemodyn := True, rfGcs := True, rfSecretions := True, rfApnea := True,
      rfPtx := True\<rparr>"

definition severe_case :: snapshot where
  "severe_case =
    blank_form\<lparr>rfApnea := True, spo2_1 := JStr ''80'', fio2_1 := JStr ''1'',
      rr_0 := JStr ''50'', rr_1 := JStr ''50'', hr_0 := JStr ''100'', hr_1 := JStr ''100'',
      ageValue := JStr ''2'', arfType := ''type1'', diag := ''ards'', fio2_0 := JStr ''1'',
      prism := JStr ''12'', ipap_1 := JStr ''20'', pco2_0 := JStr ''40'',
      pco2_1 := JStr ''50'', ph_0 := JStr ''7.3'', ph_1 := JStr ''7.2''\<rparr>"

definition mild_case :: snapshot where
  "mild_case =
    blank_form\<lparr>hr_0 := JStr ''100'', hr_1 := JStr ''100'', rr_0 := JStr ''40'',
      rr_1 := JStr ''34'', ageValue := JStr ''8''\<rparr>"

definition best_case :: snapshot where
  "best_case =
    blank_form\<lparr>spo2_1 := JStr ''100'', fio2_1 := JStr ''0.21'', rr_0 := JStr ''50'',
      rr_1 := JStr ''40'', hr_0 := JStr ''100'', hr_1 := JStr ''90'', ageValue := JStr ''2'',
      ageUnit := ''years''\<rparr>"


section \<open>Properties of the parts\<close>

lemmas step_defs = score_sf1_def score_rr_def score_hr_def score_age_def score_arfType_def
  score_diag_def score_fio2_0_def score_prism_def score_ipap_def score_dpco2_def score_ph_def

lemma score_computeRisk:
  "score (computeRisk d) = clamp (Math_round (score_var (accumulate d (derive d)))) 0 100"
  by (simp add: computeRisk_def Let_def)

lemma tier_computeRisk: "tier (computeRisk d) = fst (tiering (score (computeRisk d)))"
  by (simp add: computeRisk_def Let_def)

lemma badge_computeRisk: "badge (computeRisk d) = snd (tiering (score (computeRisk d)))"
  by (simp add: computeRisk_def Let_def)

lemma topFactors_computeRisk:
  "topFactors (computeRisk d) = top_factors (factors (accumulate d (derive d)))"
  by (simp add: computeRisk_def Let_def)

lemma derived_computeRisk:
  "sf0 (computeRisk d) = sf0 (derive d)" "sf1 (computeRisk d) = sf1 (derive d)"
  "drrPct (computeRisk d) = drrPct (derive d)" "dhrPct (computeRisk d) = dhrPct (derive d)"
  "dpco2 (computeRisk d) = dpco2 (derive d)"
  by (simp_all add: computeRisk_def Let_def)

lemma Math_round_Ints: "Math_round x \<in> \<int>"
  by (simp add: Math_round_def)

lemma Math_round_mono: "x \<le> y \<Longrightarrow> Math_round x \<le> Math_round y"
  by (simp add: Math_round_def floor_mono)

lemma Math_round_85: "Math_round 85 = 85"
  by (simp add: Math_round_def floor_eq_iff)

lemma Math_round_max_85: "Math_round (max x 85) = max (Math_round x) 85"
proof (cases "x \<le> 85")
  case True
  then have "Math_round x \<le> 85" using Math_round_mono [of x 85] by (simp add: Math_round_85)
  with True show ?thesis by (simp add: max_def Math_round_85)
next
  case False
  then have "85 \<le> Math_round x" using Math_round_mono [of 85 x] by (simp add: Math_round_85)
  with False show ?thesis by (simp add: max_def)
qed

lemma clamp_max_85: "clamp (max x 85) 0 100 = max 85 (clamp x 0 100)"
  by (simp add: clamp_def max_def min_def)

lemma clamp_bounds: "0 \<le> clamp x 0 100" "clamp x 0 100 \<le> 100"
  by (simp_all add: clamp_def)

lemma clamp_Ints: "x \<in> \<int> \<Longrightarrow> clamp x 0 100 \<in> \<int>"
  by (simp add: clamp_def max_def min_def)

lemma sf1_lower: "score_var v + 3 \<le> score_var (score_sf1 x v)"
  by (simp add: score_sf1_def addScore_def addFactor_def split: option.splits)
lemma rr_lower: "score_var v + 2 \<le> score_var (score_rr x v)"
  by (simp add: score_rr_def addScore_def addFactor_def split: option.splits)
lemma hr_lower: "score_var v + 1 \<le> score_var (score_hr x v)"
  by (simp add: score_hr_def addScore_def addFactor_def split: option.splits)
lemma age_lower: "score_var v + 2 \<le> score_var (score_age x v)"
  by (simp add: score_age_def addScore_def addFactor_def split: option.splits)
lemma arfType_lower: "score_var v \<le> score_var (score_arfType x v)"
  by (simp add: score_arfType_def addScore_def addFactor_def split: option.splits)
lemma diag_lower: "score_var v \<le> score_var (score_diag x v)"
  by (simp add: score_diag_def addScore_def addFactor_def split: option.splits)
lemma fio2_0_lower: "score_var v \<le> score_var (score_fio2_0 x v)"
  by (simp add: score_fio2_0_def addScore_def addFactor_def split: option.splits)
lemma prism_lower: "score_var v \<le> score_var (score_prism x v)"
  by (simp add: score_prism_def addScore_def addFactor_def split: option.splits)
lemma ipap_lower: "score_var v \<le> score_var (score_ipap x v)"
  by (simp add: score_ipap_def addScore_def addFactor_def split: option.splits)
lemma dpco2_lower: "score_var v \<le> score_var (score_dpco2 x v)"
  by (simp add: score_dpco2_def addScore_def addFactor_def split: option.splits)
lemma ph_lower: "score_var v \<le> score_var (score_ph x y v)"
  by (simp add: score_ph_def addScore_def addFactor_def split: option.splits)

lemma scoring_lower: "8 \<le> score_var (scoring d o1)"
proof -
  let ?v0 = "\<lparr>score_var = 0, factors = []\<rparr>"
  let ?v1 = "score_sf1 (sf1 o1) ?v0"
  let ?v2 = "score_rr (drrPct o1) ?v1"
  let ?v3 = "score_hr (dhrPct o1) ?v2"
  let ?v4 = "score_age (ageM d) ?v3"
  let ?v5 = "score_arfType (arfType d) ?v4"
  let ?v6 = "score_diag (diag d) ?v5"
  let ?v7 = "score_fio2_0 (safeNum (fio2_0 d)) ?v6"
  let ?v8 = "score_prism (safeNum (prism d)) ?v7"
  let ?v9 = "score_ipap (safeNum (ipap_1 d)) ?v8"
  let ?v10 = "score_dpco2 (dpco2 o1) ?v9"
  have "3 \<le> score_var ?v1" using sf1_lower [of ?v0 "sf1 o1"] by simp
  also have "score_var ?v1 + 2 \<le> score_var ?v2" by (rule rr_lower)
  finally have "5 \<le> score_var ?v2" by simp
  also have "score_var ?v2 + 1 \<le> score_var ?v3" by (rule hr_lower)
  finally have "6 \<le> score_var ?v3" by simp
  also have "score_var ?v3 + 2 \<le> score_var ?v4" by (rule age_lower)
  finally have "8 \<le> score_var ?v4" by simp
  also have "score_var ?v4 \<le> score_var ?v5" by (rule arfType_lower)
  also have "\<dots> \<le> score_var ?v6" by (rule diag_lower)
  also have "\<dots> \<le> score_var ?v7" by (rule fio2_0_lower)
  also have "\<dots> \<le> score_var ?v8" by (rule prism_lower)
  also have "\<dots> \<le> score_var ?v9" by (rule ipap_lower)
  also have "\<dots> \<le> score_var ?v10" by (rule dpco2_lower)
  also have "\<dots> \<le> score_var (score_ph (safeNum (ph_0 d)) (safeNum (ph_1 d)) ?v10)"
    by (rule ph_lower)
  finally show ?thesis by (simp add: scoring_def)
qed

lemma factors_steps:
  "factors (score_hr x v) = factors v"
  "factors (score_fio2_0 x v) = factors v"
  "factors (score_prism x v) = factors v"
  "factors (score_ipap x v) = factors v"
  "factors (score_dpco2 x v) = factors v"
  "factors (score_ph x y v) = factors v"
  by (simp_all add: step_defs addScore_def split: option.splits)

lemma factors_sf1:
  "factors (score_sf1 sf v) = factors v @
     (case sf of
        Some x \<Rightarrow>
          if x < 150 then [\<lparr>w = 40, label = label_sf_lt150 x\<rparr>]
          else if x < 193 then [\<lparr>w = 30, label = label_sf_lt193 x\<rparr>]
          else if x < 220 then [\<lparr>w = 18, label = label_sf_193_219 x\<rparr>]
          else if x < 260 then [\<lparr>w = 10, label = label_sf_220_259 x\<rparr>]
          else []
      | None \<Rightarrow> [])"
  by (simp add: score_sf1_def addScore_def addFactor_def split: option.splits)

lemma factors_rr:
  "factors (score_rr drr v) = factors v @
     (case drr of
        Some x \<Rightarrow>
          if x \<ge> 0 then [\<lparr>w = 18, label = label_rr_no_improvement\<rparr>]
          else if x > - 10 then [\<lparr>w = 12, label = label_rr_drop_lt10\<rparr>]
          else []
      | None \<Rightarrow> [])"
  by (simp add: score_rr_def addScore_def addFactor_def split: option.splits)

lemma factors_age:
  "factors (score_age age v) = factors v @
     (case age of
        Some x \<Rightarrow> if x < 6 then [\<lparr>w = 10, label = label_age_lt6\<rparr>] else []
      | None \<Rightarrow> [])"
  by (simp add: score_age_def addScore_def addFactor_def split: option.splits)

lemma factors_arfType:
  "factors (score_arfType t v) = factors v @
     (if t = ''type1'' then [\<lparr>w = 10, label = label_type1\<rparr>] else [])"
  by (simp add: score_arfType_def addScore_def addFactor_def)

lemma factors_diag:
  "factors (score_diag dg v) = factors v @
     (if dg = ''ards'' then [\<lparr>w = 12, label = label_ards\<rparr>]
      else if dg = ''pneumonia'' then [\<lparr>w = 8, label = label_pneumonia\<rparr>]
      else [])"
  by (simp add: score_diag_def addScore_def addFactor_def)

lemma factors_override:
  "factors (override rf v) = factors v @ (if rf then [\<lparr>w = 50, label = label_red_flags\<rparr>] else [])"
  by (simp add: override_def addFactor_def)

lemma score_var_override:
  "score_var (override rf v) = (if rf then max (score_var v) 85 else score_var v)"
  by (simp add: override_def addFactor_def)

lemma factors_scoring:
  "factors (scoring d o1) =
     (case sf1 o1 of
        Some x \<Rightarrow>
          if x < 150 then [\<lparr>w = 40, label = label_sf_lt150 x\<rparr>]
          else if x < 193 then [\<lparr>w = 30, label = label_sf_lt193 x\<rparr>]
          else if x < 220 then [\<lparr>w = 18, label = label_sf_193_219 x\<rparr>]
          else if x < 260 then [\<lparr>w = 10, label = label_sf_220_259 x\<rparr>]
          else []
      | None \<Rightarrow> []) @
     (case drrPct o1 of
        Some x \<Rightarrow>
          if x \<ge> 0 then [\<lparr>w = 18, label = label_rr_no_improvement\<rparr>]
          else if x > - 10 then [\<lparr>w = 12, label = label_rr_drop_lt10\<rparr>]
          else []
      | None \<Rightarrow> []) @
     (case ageM d of
        Some x \<Rightarrow> if x < 6 then [\<lparr>w = 10, label = label_age_lt6\<rparr>] else []
      | None \<Rightarrow> []) @
     (if arfType d = ''type1'' then [\<lparr>w = 10, label = label_type1\<rparr>] else []) @
     (if diag d = ''ards'' then [\<lparr>w = 12, label = label_ards\<rparr>]
      else if diag d = ''pneumonia'' then [\<lparr>w = 8, label = label_pneumonia\<rparr>]
      else [])"
  unfolding scoring_def
  by (simp only: factors_steps factors_diag factors_arfType factors_age factors_rr
        factors_sf1 vars.simps append_Nil append_assoc)

lemma scoring_weights: "f \<in> set (factors (scoring d o1)) \<Longrightarrow> w f \<le> 40"
  unfolding factors_scoring
  by (auto split: option.splits if_splits)

lemma hd_sort_key_min:
  assumes "x \<in> set xs" and "\<And>y. y \<in> set xs \<Longrightarrow> y \<noteq> x \<Longrightarrow> k x < k y"
  shows "hd (sort_key k xs) = x"
proof -
  let ?ys = "sort_key k xs"
  have ne: "?ys \<noteq> []" using assms(1) by (metis empty_iff list.set(1) set_sort)
  then obtain y ys where ys: "?ys = y # ys" by (cases ?ys) auto
  have sorted: "sorted (map k ?ys)" by (rule sorted_sort_key)
  have yin: "y \<in> set xs" using ys by (metis list.set_intros(1) set_sort)
  have xin: "x \<in> set ?ys" using assms(1) by simp
  have "k y \<le> k x" using sorted xin ys by auto
  with assms(2) [OF yin] have "y = x" by (cases "y = x") auto
  with ys show ?thesis by simp
qed

lemma redFlags_iff:
  "redFlags d = (rfHemodyn d \<or> rfGcs d \<or> rfSecretions d \<or> rfApnea d \<or> rfPtx d)"
  by (simp add: redFlags_def)

lemma Math_round_lower: "rat_of_int z \<le> x \<Longrightarrow> rat_of_int z \<le> Math_round x"
  by (simp add: Math_round_def le_floor_iff)

section \<open>The claims\<close>

text \<open>
  Claim C1. If at least one red flag of the snapshot is true, the final score is at least
  85 whatever the other fields hold. The override is a floor, not an assignment: the final
  score is the larger of 85 and the score that the same snapshot gets with its red flags
  cleared.
\<close>

theorem red_flag_floor:
  assumes "rfHemodyn d \<or> rfGcs d \<or> rfSecretions d \<or> rfApnea d \<or> rfPtx d"
  shows "85 \<le> score (computeRisk d) \<and>
    score (computeRisk d) =
      max 85 (score (computeRisk (d\<lparr>rfHemodyn := False, rfGcs := False,
        rfSecretions := False, rfApnea := False, rfPtx := False\<rparr>)))"
proof -
  let ?d0 = "d\<lparr>rfHemodyn := False, rfGcs := False, rfSecretions := False, rfApnea := False,
    rfPtx := False\<rparr>"
  let ?s = "score_var (scoring d (derive d))"
  have rf: "redFlags d" using assms by (simp add: redFlags_iff)
  have rf0: "\<not> redFlags ?d0" by (simp add: redFlags_iff)
  have same: "scoring ?d0 (derive ?d0) = scoring d (derive d)"
    by (simp add: scoring_def derive_def ageM_def)
  have with_flags: "score (computeRisk d) = max 85 (clamp (Math_round ?s) 0 100)"
    using rf
    by (simp add: score_computeRisk accumulate_def score_var_override Math_round_max_85
        clamp_max_85)
  have without: "score (computeRisk ?d0) = clamp (Math_round ?s) 0 100"
    using rf0 same by (simp add: score_computeRisk accumulate_def score_var_override)
  show ?thesis using with_flags without by simp
qed

text \<open>
  With a red flag and severe values the score is 100, not 85; with every red flag set and
  nothing else entered (Scenario B) it is 85.
\<close>

theorem red_flag_floor_witness:
  "rfApnea severe_case \<and> 85 \<le> score (computeRisk severe_case) \<and>
   score (computeRisk severe_case) = 100 \<and> score (computeRisk scenario_B) = 85"
proof -
  have h: "rfApnea severe_case" by (simp add: severe_case_def blank_form_def)
  have v: "score (computeRisk severe_case) = 100" by code_simp
  have b: "score (computeRisk scenario_B) = 85" by code_simp
  from h have "85 \<le> score (computeRisk severe_case)"
    using red_flag_floor [of severe_case] by blast
  with h v b show ?thesis by simp
qed

text \<open>
  Claim C2. The final score of every snapshot is an integer between 0 and 100: the
  accumulated total, rounded to an integer, then clamped to that range.
\<close>

theorem score_range:
  "score (computeRisk d) \<in> \<int> \<and> 0 \<le> score (computeRisk d) \<and> score (computeRisk d) \<le> 100 \<and>
   score (computeRisk d) = clamp (Math_round (score_var (accumulate d (derive d)))) 0 100"
  by (simp add: score_computeRisk clamp_bounds clamp_Ints Math_round_Ints)

theorem score_range_witness:
  "score (computeRisk severe_case) \<in> \<int> \<and> 0 \<le> score (computeRisk severe_case) \<and>
   score (computeRisk severe_case) \<le> 100"
  using score_range [of severe_case] by blast

text \<open>
  Claim C3 as stated fails. In Scenario A (saturation 90 and oxygen input "60" at 1 to
  2 h) the ratio is 90 / 0.60 = 150 exactly, in the model and in double arithmetic alike,
  and line 129 tests \<^verbatim>\<open>out.sf1 < 150\<close>: the block does not add 40.
\<close>

theorem scenario_A_counterexample:
  "sf1 (computeRisk scenario_A) = Some 150 \<and>
   score_var (score_sf1 (sf1 (computeRisk scenario_A)) \<lparr>score_var = 0, factors = []\<rparr>) \<noteq> 40"
  by code_simp

text \<open>
  Claim C3, amended. For every snapshot with saturation "90" and oxygen input "60" at 1
  to 2 h, the oxygenation ratio at 1 to 2 h is exactly 150; it is not below 150, so it
  falls in the band below 193: the block adds 30 points and records the entry of
  weight 30.
\<close>

theorem scenario_A_band:
  assumes "spo2_1 d = JStr ''90''" and "fio2_1 d = JStr ''60''"
  shows "sf1 (computeRisk d) = Some 150 \<and>
    score_var (score_sf1 (sf1 (computeRisk d)) v) = score_var v + 30 \<and>
    factors (score_sf1 (sf1 (computeRisk d)) v) =
      factors v @ [\<lparr>w = 30, label = label_sf_lt193 150\<rparr>]"
proof -
  have "calcSF (JStr ''90'') (JStr ''60'') = Some 150" by code_simp
  then have "sf1 (computeRisk d) = Some 150"
    using assms by (simp add: derived_computeRisk derive_def)
  then show ?thesis
    by (simp add: score_sf1_def addScore_def addFactor_def)
qed

text \<open>
  Scenario A itself: the block gives 30; the final score is 49 (30, then 6 and 3 for the
  unknown rate changes, then 10 for an age below 6 months) and the tier is the
  intermediate one.
\<close>

theorem scenario_A_band_witness:
  "spo2_1 scenario_A = JStr ''90'' \<and> fio2_1 scenario_A = JStr ''60'' \<and>
   sf1 (computeRisk scenario_A) = Some 150 \<and>
   score_var (score_sf1 (sf1 (computeRisk scenario_A)) \<lparr>score_var = 0, factors = []\<rparr>) = 30 \<and>
   score (computeRisk scenario_A) = 49 \<and>
   tier (computeRisk scenario_A) = tier_intermediate"
proof -
  have a: "spo2_1 scenario_A = JStr ''90''" and b: "fio2_1 scenario_A = JStr ''60''"
    by (simp_all add: scenario_A_def blank_form_def)
  have s: "score (computeRisk scenario_A) = 49" by code_simp
  have t: "tier (computeRisk scenario_A) = tier_intermediate" by code_simp
  from scenario_A_band [OF a b, of "\<lparr>score_var = 0, factors = []\<rparr>"] a b s t
  show ?thesis by auto
qed

text \<open>
  Claim C4 as stated fails. With the heart rate unchanged (band \<open>\<ge> 0\<close>, +10), the
  respiratory rate down by 15 percent (band \<open>> -20\<close>, +7) and an age of 8 months (band
  below 12 months, +6), each band adds its points and none records an entry: the factor
  list and the top factors are empty.
\<close>

theorem unlabeled_bands_counterexample:
  "score_hr (dhrPct (computeRisk mild_case)) \<lparr>score_var = 0, factors = []\<rparr> =
     \<lparr>score_var = 10, factors = []\<rparr> \<and>
   score_rr (drrPct (computeRisk mild_case)) \<lparr>score_var = 0, factors = []\<rparr> =
     \<lparr>score_var = 7, factors = []\<rparr> \<and>
   score_age (ageM mild_case) \<lparr>score_var = 0, factors = []\<rparr> =
     \<lparr>score_var = 6, factors = []\<rparr> \<and>
   factors (accumulate mild_case (derive mild_case)) = [] \<and>
   topFactors (computeRisk mild_case) = []"
  by code_simp

text \<open>
  Claim C4, amended. For every snapshot the factor list holds, in this order, an entry
  with the weight of the branch for exactly these branches: the oxygenation ratio at 1 to
  2 h below 150, 193, 220 or 260 (40, 30, 18, 10); the respiratory-rate change \<open>\<ge> 0\<close>
  (18) or \<open>> -10\<close> (12); an age below 6 months (10); failure type 1 (10); the diagnosis
  ARDS (12) or pneumonia (8); the red-flag override (50). No other branch records an
  entry; in particular the heart-rate inputs never change the list. The top factors are
  the labels of the first three entries of this list, sorted by falling weight.
\<close>

theorem labeled_branches:
  "factors (accumulate d (derive d)) =
     (case sf1 (computeRisk d) of
        Some x \<Rightarrow>
          if x < 150 then [\<lparr>w = 40, label = label_sf_lt150 x\<rparr>]
          else if x < 193 then [\<lparr>w = 30, label = label_sf_lt193 x\<rparr>]
          else if x < 220 then [\<lparr>w = 18, label = label_sf_193_219 x\<rparr>]
          else if x < 260 then [\<lparr>w = 10, label = label_sf_220_259 x\<rparr>]
          else []
      | None \<Rightarrow> []) @
     (case drrPct (computeRisk d) of
        Some x \<Rightarrow>
          if x \<ge> 0 then [\<lparr>w = 18, label = label_rr_no_improvement\<rparr>]
          else if x > - 10 then [\<lparr>w = 12, label = label_rr_drop_lt10\<rparr>]
          else []
      | None \<Rightarrow> []) @
     (case ageM d of
        Some x \<Rightarrow> if x < 6 then [\<lparr>w = 10, label = label_age_lt6\<rparr>] else []
      | None \<Rightarrow> []) @
     (if arfType d = ''type1'' then [\<lparr>w = 10, label = label_type1\<rparr>] else []) @
     (if diag d = ''ards'' then [\<lparr>w = 12, label = label_ards\<rparr>]
      else if diag d = ''pneumonia'' then [\<lparr>w = 8, label = label_pneumonia\<rparr>]
      else []) @
     (if rfHemodyn d \<or> rfGcs d \<or> rfSecretions d \<or> rfApnea d \<or> rfPtx d
      then [\<lparr>w = 50, label = label_red_flags\<rparr>] else []) \<and>
   factors (accumulate (d\<lparr>hr_0 := a, hr_1 := b\<rparr>) (derive (d\<lparr>hr_0 := a, hr_1 := b\<rparr>))) =
     factors (accumulate d (derive d)) \<and>
   topFactors (computeRisk d) =
     map label (take 3 (sort_key (\<lambda>f. - w f) (factors (accumulate d (derive d)))))"
proof -
  let ?d' = "d\<lparr>hr_0 := a, hr_1 := b\<rparr>"
  have 1: "sf1 (derive ?d') = sf1 (derive d)" "drrPct (derive ?d') = drrPct (derive d)"
    by (simp_all add: derive_def)
  have 2: "ageM ?d' = ageM d" "redFlags ?d' = redFlags d" by (simp_all add: ageM_def redFlags_def)
  have "factors (accumulate ?d' (derive ?d')) = factors (accumulate d (derive d))"
    by (simp add: accumulate_def factors_override factors_scoring 1 2)
  then show ?thesis
    by (simp add: accumulate_def factors_override factors_scoring redFlags_iff
        derived_computeRisk topFactors_computeRisk top_factors_def sort_factors_def)
qed

theorem labeled_branches_witness:
  "map w (factors (accumulate severe_case (derive severe_case))) = [40, 18, 10, 10, 12, 50] \<and>
   factors (accumulate (severe_case\<lparr>hr_0 := JStr ''120'', hr_1 := JStr ''90''\<rparr>)
      (derive (severe_case\<lparr>hr_0 := JStr ''120'', hr_1 := JStr ''90''\<rparr>))) =
     factors (accumulate severe_case (derive severe_case))"
proof -
  have "map w (factors (accumulate severe_case (derive severe_case))) = [40, 18, 10, 10, 12, 50]"
    by code_simp
  moreover have "factors (accumulate (severe_case\<lparr>hr_0 := JStr ''120'', hr_1 := JStr ''90''\<rparr>)
      (derive (severe_case\<lparr>hr_0 := JStr ''120'', hr_1 := JStr ''90''\<rparr>))) =
     factors (accumulate severe_case (derive severe_case))"
    using labeled_branches [where d = severe_case and a = "JStr ''120''" and b = "JStr ''90''"]
    by blast
  ultimately show ?thesis by blast
qed

text \<open>
  Claim C5 as stated fails on the texts. With every red flag set the score is 85, and the
  tier and the badge are the Portuguese texts of the lines 234 and 235, not "Very High"
  and "HIGH RISK".
\<close>

theorem tier_names_counterexample:
  "85 \<le> score (computeRisk scenario_B) \<and>
   tier (computeRisk scenario_B) \<noteq> ''Very High'' \<and>
   badge (computeRisk scenario_B) \<noteq> ''HIGH RISK'' \<and>
   tier (computeRisk scenario_B) = ''Muito alto'' \<and>
   badge (computeRisk scenario_B) = ''ALTO RISCO''"
  by code_simp

text \<open>
  Claim C5, amended. The tier and the badge are a function of the final score alone, by
  the first match from the top: from 85 on, the tier "Muito alto" and the badge "ALTO
  RISCO"; from 65 to below 85, "Alto" and "RISCO" with an arrow up (U+2191); from 45 to
  below 65, "Intermedio" (its first e is U+00E9) and "RISCO" with an arrow both ways
  (U+2194); below 45, "Baixo" and "RISCO" with an arrow down (U+2193). Each pair of texts
  belongs to exactly its range, so the four ranges neither overlap nor leave a gap.
\<close>

theorem tier_partition:
  "tier (computeRisk d) = fst (tiering (score (computeRisk d))) \<and>
   badge (computeRisk d) = snd (tiering (score (computeRisk d))) \<and>
   ((tier (computeRisk d) = ''Muito alto'' \<and> badge (computeRisk d) = ''ALTO RISCO'') =
      (85 \<le> score (computeRisk d))) \<and>
   ((tier (computeRisk d) = ''Alto'' \<and>
     badge (computeRisk d) = ''RISCO '' @ [CHR 0xE2, CHR 0x86, CHR 0x91]) =
      (65 \<le> score (computeRisk d) \<and> score (computeRisk d) < 85)) \<and>
   ((tier (computeRisk d) = ''Interm'' @ [CHR 0xC3, CHR 0xA9] @ ''dio'' \<and>
     badge (computeRisk d) = ''RISCO '' @ [CHR 0xE2, CHR 0x86, CHR 0x94]) =
      (45 \<le> score (computeRisk d) \<and> score (computeRisk d) < 65)) \<and>
   ((tier (computeRisk d) = ''Baixo'' \<and>
     badge (computeRisk d) = ''RISCO '' @ [CHR 0xE2, CHR 0x86, CHR 0x93]) =
      (score (computeRisk d) < 45))"
  unfolding tier_computeRisk badge_computeRisk
  by (simp add: tiering_def tier_very_high_def badge_very_high_def tier_high_def
      badge_high_def tier_intermediate_def badge_intermediate_def tier_low_def badge_low_def)

theorem tier_partition_witness:
  "score (computeRisk scenario_A) = 49 \<and>
   tier (computeRisk scenario_A) = ''Interm'' @ [CHR 0xC3, CHR 0xA9] @ ''dio'' \<and>
   badge (computeRisk scenario_A) = ''RISCO '' @ [CHR 0xE2, CHR 0x86, CHR 0x94]"
proof -
  have s: "score (computeRisk scenario_A) = 49" by code_simp
  then have "45 \<le> score (computeRisk scenario_A) \<and> score (computeRisk scenario_A) < 65"
    by simp
  with tier_partition [of scenario_A] s show ?thesis by blast
qed





text \<open>
  Claim C8. Two snapshots that differ only in the four operational-criteria flags have
  the same score, tier, badge, factor list and top factors; of the whole assessment only
  the explanation and the actions can differ.
\<close>

theorem operational_flags_no_effect:
  assumes "d2 = d1\<lparr>cfHypox := cfHypox d2, cfWork := cfWork d2,
    cfHypercap := cfHypercap d2, cfIntol := cfIntol d2\<rparr>"
  shows "score (computeRisk d2) = score (computeRisk d1) \<and>
    tier (computeRisk d2) = tier (computeRisk d1) \<and>
    badge (computeRisk d2) = badge (computeRisk d1) \<and>
    factors (accumulate d2 (derive d2)) = factors (accumulate d1 (derive d1)) \<and>
    topFactors (computeRisk d2) = topFactors (computeRisk d1) \<and>
    computeRisk d2 =
      (computeRisk d1)\<lparr>explain := explain (computeRisk d2),
        actions := actions (computeRisk d2)\<rparr>"
proof -
  have der: "derive d2 = derive d1"
    by (subst assms) (simp add: derive_def)
  have rf: "redFlags d2 = redFlags d1"
    by (subst assms) (simp add: redFlags_def)
  have sc: "scoring d2 o1 = scoring d1 o1" for o1
    by (subst assms) (simp add: scoring_def ageM_def)
  have acc: "accumulate d2 o1 = accumulate d1 o1" for o1
    by (simp add: accumulate_def sc rf)
  have f1: "fio2_1 d2 = fio2_1 d1" by (subst assms) simp
  show ?thesis
    by (simp add: computeRisk_def Let_def acc der f1)
qed

text \<open>
  Setting two of the flags on Scenario A leaves the score and the top factors as they
  are, and does change the explanation and the actions.
\<close>

theorem operational_flags_no_effect_witness:
  "score (computeRisk (scenario_A\<lparr>cfWork := True, cfIntol := True\<rparr>)) =
     score (computeRisk scenario_A) \<and>
   topFactors (computeRisk (scenario_A\<lparr>cfWork := True, cfIntol := True\<rparr>)) =
     topFactors (computeRisk scenario_A) \<and>
   explain (computeRisk (scenario_A\<lparr>cfWork := True, cfIntol := True\<rparr>)) \<noteq>
     explain (computeRisk scenario_A) \<and>
   actions (computeRisk (scenario_A\<lparr>cfWork := True, cfIntol := True\<rparr>)) \<noteq>
     actions (computeRisk scenario_A)"
proof -
  let ?d2 = "scenario_A\<lparr>cfWork := True, cfIntol := True\<rparr>"
  have h: "?d2 = scenario_A\<lparr>cfHypox := cfHypox ?d2, cfWork := cfWork ?d2,
      cfHypercap := cfHypercap ?d2, cfIntol := cfIntol ?d2\<rparr>"
    by (simp add: scenario_A_def blank_form_def)
  have e: "explain (computeRisk ?d2) \<noteq> explain (computeRisk scenario_A)" by code_simp
  have a: "actions (computeRisk ?d2) \<noteq> actions (computeRisk scenario_A)" by code_simp
  from operational_flags_no_effect [OF h] e a show ?thesis by blast
qed

text \<open>
  Claim C9. The final score of every snapshot is at least 8, red flags or not: the blocks
  of the oxygenation ratio, the two rate changes and the age always add at least 3, 2, 1
  and 2 (exactly that for a ratio from 260 on, a respiratory-rate change of at most -20
  percent, a heart-rate change of at most -10 percent and an age from 12 months on), and
  no block subtracts.
\<close>

theorem score_floor_8:
  "8 \<le> score (computeRisk d) \<and>
   score_var v + 3 \<le> score_var (score_sf1 sf v) \<and>
   score_var v + 2 \<le> score_var (score_rr drr v) \<and>
   score_var v + 1 \<le> score_var (score_hr dhr v) \<and>
   score_var v + 2 \<le> score_var (score_age age v) \<and>
   (260 \<le> y \<longrightarrow> score_var (score_sf1 (Some y) v) = score_var v + 3) \<and>
   (y \<le> - 20 \<longrightarrow> score_var (score_rr (Some y) v) = score_var v + 2) \<and>
   (y \<le> - 10 \<longrightarrow> score_var (score_hr (Some y) v) = score_var v + 1) \<and>
   (12 \<le> y \<longrightarrow> score_var (score_age (Some y) v) = score_var v + 2)"
proof -
  have "8 \<le> score_var (scoring d (derive d))" by (rule scoring_lower)
  then have "8 \<le> score_var (accumulate d (derive d))"
    by (simp add: accumulate_def score_var_override le_max_iff_disj)
  then have "rat_of_int 8 \<le> Math_round (score_var (accumulate d (derive d)))"
    by (intro Math_round_lower) simp
  then have total: "8 \<le> score (computeRisk d)" by (simp add: score_computeRisk clamp_def)
  have best: "260 \<le> y \<longrightarrow> score_var (score_sf1 (Some y) v) = score_var v + 3"
    "y \<le> - 20 \<longrightarrow> score_var (score_rr (Some y) v) = score_var v + 2"
    "y \<le> - 10 \<longrightarrow> score_var (score_hr (Some y) v) = score_var v + 1"
    "12 \<le> y \<longrightarrow> score_var (score_age (Some y) v) = score_var v + 2"
    by (simp_all add: score_sf1_def score_rr_def score_hr_def score_age_def addScore_def
        addFactor_def)
  from total best sf1_lower [of v sf] rr_lower [of v drr] hr_lower [of v dhr]
    age_lower [of v age]
  show ?thesis by blast
qed

text \<open>
  The bound is met: the most favourable snapshot scores exactly 8.
\<close>

theorem score_floor_8_witness:
  "score (computeRisk best_case) = 8 \<and>
   score_var (score_sf1 (Some 260) \<lparr>score_var = 0, factors = []\<rparr>) = 3 \<and>
   score_var (score_rr (Some (- 20)) \<lparr>score_var = 0, factors = []\<rparr>) = 2 \<and>
   score_var (score_hr (Some (- 10)) \<lparr>score_var = 0, factors = []\<rparr>) = 1 \<and>
   score_var (score_age (Some 12) \<lparr>score_var = 0, factors = []\<rparr>) = 2"
proof -
  let ?v0 = "\<lparr>score_var = 0, factors = []\<rparr>"
  note inst = score_floor_8 [where d = best_case and v = ?v0]
  have le: "score (computeRisk best_case) \<le> 8" by code_simp
  have "8 \<le> score (computeRisk best_case)" using inst [where y = 0] by blast
  with le have 0: "score (computeRisk best_case) = 8" by simp
  have h: "(260 :: rat) \<le> 260" "- 20 \<le> (- 20 :: rat)" "- 10 \<le> (- 10 :: rat)"
    "(12 :: rat) \<le> 12" by simp_all
  have "score_var (score_sf1 (Some 260) ?v0) = score_var ?v0 + 3"
    using inst [where y = 260] h(1) by blast
  then have 1: "score_var (score_sf1 (Some 260) ?v0) = 3" by simp
  have "score_var (score_rr (Some (- 20)) ?v0) = score_var ?v0 + 2"
    using inst [where y = "- 20"] h(2) by blast
  then have 2: "score_var (score_rr (Some (- 20)) ?v0) = 2" by simp
  have "score_var (score_hr (Some (- 10)) ?v0) = score_var ?v0 + 1"
    using inst [where y = "- 10"] h(3) by blast
  then have 3: "score_var (score_hr (Some (- 10)) ?v0) = 1" by simp
  have "score_var (score_age (Some 12) ?v0) = score_var ?v0 + 2"
    using inst [where y = 12] h(4) by blast
  then have 4: "score_var (score_age (Some 12) ?v0) = 2" by simp
  from 0 1 2 3 4 show ?thesis by blast
qed

text \<open>
  Claim C10. With at least one red flag set, the factor list holds the entry of weight 50
  with the label of line 228, "Red flags clinicas" (the first i of its last word is
  U+00ED), every other entry weighs at most 40, and this label is the first of the top
  factors.
\<close>

theorem red_flags_ranked_first:
  assumes "rfHemodyn d \<or> rfGcs d \<or> rfSecretions d \<or> rfApnea d \<or> rfPtx d"
  shows "\<lparr>w = 50, label = label_red_flags\<rparr> \<in> set (factors (accumulate d (derive d))) \<and>
    (\<forall>f \<in> set (factors (accumulate d (derive d))).
       f \<noteq> \<lparr>w = 50, label = label_red_flags\<rparr> \<longrightarrow> w f \<le> 40) \<and>
    topFactors (computeRisk d) \<noteq> [] \<and>
    hd (topFactors (computeRisk d)) = label_red_flags"
proof -
  let ?red = "\<lparr>w = 50, label = label_red_flags\<rparr>"
  let ?fs = "factors (accumulate d (derive d))"
  have rf: "redFlags d" using assms by (simp add: redFlags_iff)
  have fs: "?fs = factors (scoring d (derive d)) @ [?red]"
    using rf by (simp add: accumulate_def factors_override)
  have mem: "?red \<in> set ?fs" by (simp add: fs)
  have others: "w f \<le> 40" if "f \<in> set ?fs" "f \<noteq> ?red" for f
    using that scoring_weights [of f d "derive d"] by (auto simp: fs)
  have "hd (sort_key (\<lambda>f. - w f) ?fs) = ?red"
  proof (rule hd_sort_key_min [OF mem])
    fix y assume "y \<in> set ?fs" "y \<noteq> ?red"
    then have "w y \<le> 40" by (rule others)
    then show "- w ?red < - w y" by simp
  qed
  moreover have ne: "sort_key (\<lambda>f. - w f) ?fs \<noteq> []"
    using mem by (metis empty_iff list.set(1) set_sort)
  ultimately have "topFactors (computeRisk d) \<noteq> [] \<and>
      hd (topFactors (computeRisk d)) = label_red_flags"
    by (cases "sort_key (\<lambda>f. - w f) ?fs")
      (simp_all add: topFactors_computeRisk top_factors_def sort_factors_def)
  with mem others show ?thesis by blast
qed

theorem red_flags_ranked_first_witness:
  "rfApnea severe_case \<and> hd (topFactors (computeRisk severe_case)) = label_red_flags \<and>
   length (factors (accumulate severe_case (derive severe_case))) = 6"
proof -
  have h: "rfApnea severe_case" by (simp add: severe_case_def blank_form_def)
  have n: "length (factors (accumulate severe_case (derive severe_case))) = 6" by code_simp
  from h have "hd (topFactors (computeRisk severe_case)) = label_red_flags"
    using red_flags_ranked_first [of severe_case] by blast
  with h n show ?thesis by simp
qed

end
